theory Spec2Isabelle
  imports Complex_Main
begin

section \<open>Numbers and vectors of the shaders\<close>

text \<open>
  The WGSL shaders and the JavaScript host compute on \<open>f32\<close> and \<open>f64\<close> values. They are
  modelled as real numbers: rounding, infinities and NaN are not part of the model. The
  WGSL built-ins used by the shaders (\<open>dot\<close>, \<open>length\<close>, \<open>normalize\<close>, \<open>mix\<close>, \<open>clamp\<close>,
  \<open>smoothstep\<close>, \<open>fract\<close>, \<open>pow\<close>) are written out by their defining formulas.
\<close>

datatype vec3 = Vec3 (vx: real) (vy: real) (vz: real)

definition splat :: "real \<Rightarrow> vec3" where
  "splat s = Vec3 s s s"

definition vadd :: "vec3 \<Rightarrow> vec3 \<Rightarrow> vec3" where
  "vadd a b = Vec3 (vx a + vx b) (vy a + vy b) (vz a + vz b)"

definition vsub :: "vec3 \<Rightarrow> vec3 \<Rightarrow> vec3" where
  "vsub a b = Vec3 (vx a - vx b) (vy a - vy b) (vz a - vz b)"

definition vneg :: "vec3 \<Rightarrow> vec3" where
  "vneg a = Vec3 (- vx a) (- vy a) (- vz a)"

definition smul :: "vec3 \<Rightarrow> real \<Rightarrow> vec3" where
  "smul a s = Vec3 (vx a * s) (vy a * s) (vz a * s)"

definition sdiv :: "vec3 \<Rightarrow> real \<Rightarrow> vec3" where
  "sdiv a s = Vec3 (vx a / s) (vy a / s) (vz a / s)"

definition dot :: "vec3 \<Rightarrow> vec3 \<Rightarrow> real" where
  "dot a b = vx a * vx b + vy a * vy b + vz a * vz b"

definition vlength :: "vec3 \<Rightarrow> real" where
  "vlength a = sqrt (dot a a)"

definition normalize :: "vec3 \<Rightarrow> vec3" where
  "normalize a = sdiv a (vlength a)"

definition mix :: "real \<Rightarrow> real \<Rightarrow> real \<Rightarrow> real" where
  "mix a b t = a * (1 - t) + b * t"

definition vmix :: "vec3 \<Rightarrow> vec3 \<Rightarrow> real \<Rightarrow> vec3" where
  "vmix a b t = Vec3 (mix (vx a) (vx b) t) (mix (vy a) (vy b) t) (mix (vz a) (vz b) t)"

definition clamp :: "real \<Rightarrow> real \<Rightarrow> real \<Rightarrow> real" where
  "clamp x lo hi = min (max x lo) hi"

definition smoothstep :: "real \<Rightarrow> real \<Rightarrow> real \<Rightarrow> real" where
  "smoothstep e0 e1 x = (let t = clamp ((x - e0) / (e1 - e0)) 0 1 in t * t * (3 - 2 * t))"

text \<open>\<open>u32(x)\<close> of an \<open>f32\<close>: truncation, saturating at the ends of the range.\<close>

definition u32_of_f32 :: "real \<Rightarrow> nat" where
  "u32_of_f32 x = min (nat \<lfloor>x\<rfloor>) 4294967295"

section \<open>The particle compute shader\<close>

text \<open>
  \<open>particleComputeShader\<close> of the WebGPU module (src/unnamed/part_003); the shader of
  src/js/modules/controls.js has the same \<open>main\<close>.
\<close>

record particle =
  position :: vec3
  velocity :: vec3
  life :: real
  size :: real
  color :: vec3
  targetPos :: vec3

record uniforms =
  time :: real
  deltaTime :: real
  particleCount :: real
  gravity :: real
  turbulence :: real
  attraction :: real
  morphProgress :: real
  mousePosX :: real
  mousePosY :: real
  hoverRadius :: real
  hoverStrength :: real
  mouseInfluence :: real
  hoverRepulsion :: real
  respawnRate :: real

text \<open>
  The simplex noise \<open>snoise\<close> of the shader is a parameter \<open>sn\<close> of the model: it only
  feeds the turbulence force. \<open>curlNoise\<close> is the shader's finite-difference curl of it.
\<close>

definition curlNoise :: "(vec3 \<Rightarrow> real) \<Rightarrow> vec3 \<Rightarrow> vec3" where
  "curlNoise sn p =
     (let e = 0.1;
          dx = Vec3 e 0 0;
          dy = Vec3 0 e 0;
          dz = Vec3 0 0 e;
          p_x0 = sn (vsub p dx);
          p_x1 = sn (vadd p dx);
          p_y0 = sn (vsub p dy);
          p_y1 = sn (vadd p dy);
          p_z0 = sn (vsub p dz);
          p_z1 = sn (vadd p dz);
          x = (p_y1 - p_y0) - (p_z1 - p_z0);
          y = (p_z1 - p_z0) - (p_x1 - p_x0);
          z = (p_x1 - p_x0) - (p_y1 - p_y0)
      in normalize (Vec3 x y z))"

definition hash :: "vec3 \<Rightarrow> real" where
  "hash p = frac (sin (dot p (Vec3 12.9898 78.233 54.53)) * 43758.5453)"

text \<open>The body of the branch \<open>if (particle.life <= 0.0)\<close>.\<close>

definition respawn :: "uniforms \<Rightarrow> particle \<Rightarrow> particle" where
  "respawn u p =
     (let randomVec = Vec3 (hash (vadd (position p) (splat (time u))))
                           (hash (velocity p)) (hash (targetPos p));
          theta = vx randomVec * 2 * 3.14159;
          phi = arccos (2 * vy randomVec - 1);
          radius = vz randomVec * 5;
          newPos = Vec3 (radius * sin phi * cos theta)
                        (radius * sin phi * sin theta)
                        (radius * cos phi)
      in p\<lparr>position := newPos, velocity := Vec3 0 0 0, life := 1 + hash newPos * 2\<rparr>)"

text \<open>Step 1 of \<open>main\<close>: the life is decremented, then the particle may respawn.\<close>

definition decay :: "uniforms \<Rightarrow> particle \<Rightarrow> particle" where
  "decay u p = p\<lparr>life := life p - deltaTime u * respawnRate u\<rparr>"

definition lifecycle :: "uniforms \<Rightarrow> particle \<Rightarrow> particle" where
  "lifecycle u p = (let p1 = decay u p in if life p1 \<le> 0 then respawn u p1 else p1)"

text \<open>Step 2 of \<open>main\<close>: the four forces, computed from the particle as step 1 left it.\<close>

definition turbulenceForce :: "(vec3 \<Rightarrow> real) \<Rightarrow> uniforms \<Rightarrow> particle \<Rightarrow> vec3" where
  "turbulenceForce sn u p =
     (let noisePos = smul (position p) 0.2
      in smul (curlNoise sn (vadd noisePos (splat (time u * 0.05)))) (turbulence u))"

definition gravityForce :: "uniforms \<Rightarrow> vec3" where
  "gravityForce u = Vec3 0 (- gravity u) 0"

definition attractionTarget :: "uniforms \<Rightarrow> vec3 list \<Rightarrow> nat \<Rightarrow> particle \<Rightarrow> vec3" where
  "attractionTarget u targets index p =
     (if index < length targets
      then vmix (targetPos p) (targets ! index) (morphProgress u)
      else targetPos p)"

definition targetForce :: "uniforms \<Rightarrow> vec3 list \<Rightarrow> nat \<Rightarrow> particle \<Rightarrow> vec3" where
  "targetForce u targets index p =
     smul (vsub (attractionTarget u targets index p) (position p)) (attraction u)"

definition mouseForce :: "uniforms \<Rightarrow> particle \<Rightarrow> vec3" where
  "mouseForce u p =
     (if hoverRadius u > 0 then
        (let mousePos3D = Vec3 (mousePosX u) (mousePosY u) 0;
             mouseVec = vsub (position p) mousePos3D;
             mouseDistance = vlength mouseVec
         in if mouseDistance < hoverRadius u then
              (let direction = sdiv mouseVec mouseDistance;
                   falloff = (1 - mouseDistance / hoverRadius u) ^ 2;
                   strength = falloff * hoverStrength u * mouseInfluence u
               in if hoverRepulsion u > 0.5 then smul direction strength
                  else smul (vneg direction) strength)
            else Vec3 0 0 0)
      else Vec3 0 0 0)"

definition totalForce :: "(vec3 \<Rightarrow> real) \<Rightarrow> uniforms \<Rightarrow> vec3 list \<Rightarrow> nat \<Rightarrow> particle \<Rightarrow> vec3" where
  "totalForce sn u targets index p =
     vadd (vadd (vadd (turbulenceForce sn u p) (gravityForce u)) (targetForce u targets index p))
          (mouseForce u p)"

text \<open>Steps 3 and 4 of \<open>main\<close>: velocity, damping, position, colour.\<close>

definition integrate :: "(vec3 \<Rightarrow> real) \<Rightarrow> uniforms \<Rightarrow> vec3 list \<Rightarrow> nat \<Rightarrow> particle \<Rightarrow> particle" where
  "integrate sn u targets index p =
     (let dt = deltaTime u;
          v1 = vadd (velocity p) (smul (totalForce sn u targets index p) dt);
          v2 = smul v1 0.98;
          pos = vadd (position p) (smul v2 dt)
      in p\<lparr>velocity := v2, position := pos\<rparr>)"

definition updateVisuals :: "particle \<Rightarrow> particle" where
  "updateVisuals p =
     (let speed = clamp (vlength (velocity p)) 0 0.5;
          slowColor = Vec3 0.1 0.4 0.9;
          fastColor = Vec3 1.0 0.9 0.3
      in p\<lparr>color := vmix slowColor fastColor (smoothstep 0 0.5 speed)\<rparr>)"

text \<open>
  The work of one invocation on its local copy \<open>var particle\<close>. The respawn branch of
  \<open>lifecycle\<close> has no \<open>return\<close> and no \<open>else\<close>: control always continues into the forces.
\<close>

definition particleStep :: "(vec3 \<Rightarrow> real) \<Rightarrow> uniforms \<Rightarrow> vec3 list \<Rightarrow> nat \<Rightarrow> particle \<Rightarrow> particle" where
  "particleStep sn u targets index p =
     updateVisuals (integrate sn u targets index (lifecycle u p))"

text \<open>
  \<open>main\<close> of the particle shader for the invocation \<open>index\<close>: the guard on
  \<open>particleCount\<close>, the read of \<open>particles[index]\<close> and the write back. An index beyond the
  buffer is left without effect.
\<close>

definition particleMain :: "(vec3 \<Rightarrow> real) \<Rightarrow> uniforms \<Rightarrow> vec3 list \<Rightarrow> nat \<Rightarrow> particle list \<Rightarrow> particle list" where
  "particleMain sn u targets index ps =
     (if index \<ge> u32_of_f32 (particleCount u) then ps
      else if index \<ge> length ps then ps
      else ps[index := particleStep sn u targets index (ps ! index)])"

text \<open>
  Two local values of the pointer branch, for stating what \<open>mouseForce\<close> computes:
  \<open>mouseVec\<close>, the vector from the pointer point \<open>(mousePos.x, mousePos.y, 0)\<close> to the
  particle, and \<open>strength\<close>, named \<open>mouseStrength\<close> here.
\<close>

definition mouseVec :: "uniforms \<Rightarrow> particle \<Rightarrow> vec3" where
  "mouseVec u p = vsub (position p) (Vec3 (mousePosX u) (mousePosY u) 0)"

definition mouseStrength :: "uniforms \<Rightarrow> particle \<Rightarrow> real" where
  "mouseStrength u p =
     (1 - vlength (mouseVec u p) / hoverRadius u)\<^sup>2 * hoverStrength u * mouseInfluence u"

section \<open>The fiber compute shader\<close>

text \<open>
  \<open>fiberComputeShader\<close> of src/unnamed/part_003, which writes particle velocities.
  \<open>struct Fiber\<close>: the fields \<open>end\<close> and \<open>length\<close> are named \<open>end_index\<close> and
  \<open>length_rest\<close> here. A fiber counts as active when \<open>isActive\<close> is not below 0.5.
\<close>

record fiber =
  start :: nat
  end_index :: nat
  strength :: real
  length_rest :: real
  isActive :: real

record fiberUniforms =
  maxDistance :: real
  springStrength :: real
  springDamping :: real
  fiberDeltaTime :: real

definition currentDistance :: "particle \<Rightarrow> particle \<Rightarrow> real" where
  "currentDistance startParticle endParticle =
     vlength (vsub (position endParticle) (position startParticle))"

definition direction :: "particle \<Rightarrow> particle \<Rightarrow> vec3" where
  "direction startParticle endParticle =
     sdiv (vsub (position endParticle) (position startParticle))
          (currentDistance startParticle endParticle)"

definition springForceMagnitude :: "fiberUniforms \<Rightarrow> fiber \<Rightarrow> particle \<Rightarrow> particle \<Rightarrow> real" where
  "springForceMagnitude u f startParticle endParticle =
     (let displacement = currentDistance startParticle endParticle - length_rest f
      in displacement * springStrength u)"

definition dampingForceMagnitude :: "fiberUniforms \<Rightarrow> particle \<Rightarrow> particle \<Rightarrow> real" where
  "dampingForceMagnitude u startParticle endParticle =
     (let relativeVelocity = vsub (velocity endParticle) (velocity startParticle);
          velocityAlongAxis = dot relativeVelocity (direction startParticle endParticle)
      in velocityAlongAxis * springDamping u)"

definition fiberForce :: "fiberUniforms \<Rightarrow> fiber \<Rightarrow> particle \<Rightarrow> particle \<Rightarrow> vec3" where
  "fiberForce u f startParticle endParticle =
     (let springForce = smul (direction startParticle endParticle)
                             (springForceMagnitude u f startParticle endParticle);
          dampingForce = smul (direction startParticle endParticle)
                              (dampingForceMagnitude u startParticle endParticle)
      in vadd springForce dampingForce)"

definition deltaVelocity :: "fiberUniforms \<Rightarrow> fiber \<Rightarrow> particle \<Rightarrow> particle \<Rightarrow> vec3" where
  "deltaVelocity u f startParticle endParticle =
     smul (fiberForce u f startParticle endParticle) (fiberDeltaTime u)"

text \<open>
  \<open>main\<close> of the fiber shader for the invocation \<open>index\<close>, on the fiber buffer and the
  particle buffer. Each early \<open>return\<close> of the source is a branch that hands back the
  buffers it has at that point.
\<close>

definition fiberMain :: "fiberUniforms \<Rightarrow> nat \<Rightarrow> fiber list \<times> particle list \<Rightarrow> fiber list \<times> particle list" where
  "fiberMain u index st =
     (let fibers = fst st; particles = snd st in
      if index \<ge> length fibers then (fibers, particles)
      else
        let f = fibers ! index in
        if isActive f < 0.5 then (fibers, particles)
        else
          let startIndex = start f; endIndex = end_index f in
          if startIndex \<ge> length particles \<or> endIndex \<ge> length particles
          then (fibers, particles)
          else
            let startParticle = particles ! startIndex;
                endParticle = particles ! endIndex
            in
            if currentDistance startParticle endParticle > maxDistance u
            then (fibers[index := f\<lparr>isActive := 0\<rparr>], particles)
            else if currentDistance startParticle endParticle < 0.0001
            then (fibers, particles)
            else
              let dv = deltaVelocity u f startParticle endParticle;
                  startParticle' = startParticle\<lparr>velocity := vadd (velocity startParticle) dv\<rparr>;
                  endParticle' = endParticle\<lparr>velocity := vsub (velocity endParticle) dv\<rparr>;
                  f' = f\<lparr>strength := vlength (fiberForce u f startParticle endParticle)\<rparr>
              in (fibers[index := f'],
                  (particles[startIndex := startParticle'])[endIndex := endParticle']))"

text \<open>
  The step relation of the fiber update: any invocation, with any uniforms, in any order.
  \<open>fiberRun\<close> runs a list of such invocations one after the other.
\<close>

fun fiberRun :: "(fiberUniforms \<times> nat) list \<Rightarrow> fiber list \<times> particle list \<Rightarrow> fiber list \<times> particle list" where
  "fiberRun [] st = st"
| "fiberRun ((u, index) # rest) st = fiberRun rest (fiberMain u index st)"

section \<open>The fiber shader of controls.js and webgpu.js\<close>

text \<open>
  This variant binds the particle buffer as \<open>var<storage, read>\<close> and has other uniforms.
  It reads \<open>particles[fiber.start]\<close> without a bounds check; \<open>oob\<close> stands for what such a
  read yields outside the buffer. In webgpu.js the field \<open>isActive\<close> is called \<open>active\<close>.
\<close>

record fiberUniforms_controls =
  maxDistance_c :: real
  springStrength_c :: real
  damping_c :: real
  time_c :: real

definition readParticle :: "particle \<Rightarrow> particle list \<Rightarrow> nat \<Rightarrow> particle" where
  "readParticle oob particles i = (if i < length particles then particles ! i else oob)"

definition springForce_controls :: "fiberUniforms_controls \<Rightarrow> real \<Rightarrow> fiber \<Rightarrow> real" where
  "springForce_controls u distance f = (distance - length_rest f) * springStrength_c u"

definition endpointDistance :: "particle \<Rightarrow> particle list \<Rightarrow> fiber \<Rightarrow> real" where
  "endpointDistance oob particles f =
     (let startPos = position (readParticle oob particles (start f));
          endPos = position (readParticle oob particles (end_index f))
      in vlength (vsub endPos startPos))"

definition fiberUpdate_controls :: "fiberUniforms_controls \<Rightarrow> particle \<Rightarrow> particle list \<Rightarrow> fiber \<Rightarrow> fiber" where
  "fiberUpdate_controls u oob particles f =
     (if isActive f > 0.5 then
        (let distance = endpointDistance oob particles f;
             f1 = f\<lparr>length_rest := distance\<rparr>;
             f2 = (if distance > maxDistance_c u then f1\<lparr>isActive := 0\<rparr> else f1);
             springForce = springForce_controls u distance f2
         in f2\<lparr>strength := mix (strength f2) springForce (damping_c u)\<rparr>)
      else f)"

definition fiberMain_controls :: "fiberUniforms_controls \<Rightarrow> particle \<Rightarrow> nat \<Rightarrow> fiber list \<times> particle list \<Rightarrow> fiber list \<times> particle list" where
  "fiberMain_controls u oob index st =
     (let fibers = fst st; particles = snd st in
      if index \<ge> length fibers then (fibers, particles)
      else (fibers[index := fiberUpdate_controls u oob particles (fibers ! index)], particles))"

section \<open>The uniform upload\<close>

text \<open>
  \<open>updateUniforms(time, deltaTime, params)\<close> of src/unnamed/part_003; controls.js builds
  the particle uniforms from the same expressions. A property of \<open>params\<close> is a number or
  missing (\<open>None\<close>, JavaScript's \<open>undefined\<close>); \<open>a || d\<close> yields \<open>d\<close> when \<open>a\<close> is missing
  or zero. The two padding floats of the buffer are left out.
\<close>

record controlParams =
  gravity_param :: "real option"
  turbulence_param :: "real option"
  attraction_param :: "real option"
  morphProgress_param :: "real option"
  mousePos_param :: "(real \<times> real) option"
  hoverRadius_param :: "real option"
  hoverStrength_param :: "real option"
  mouseInfluence_param :: "real option"
  hoverRepulsion_param :: bool
  respawnRate_param :: "real option"
  connectionDistance_param :: "real option"
  fiberStrength_param :: "real option"
  fiberDamping_param :: "real option"

definition js_or :: "real option \<Rightarrow> real \<Rightarrow> real" where
  "js_or a d = (case a of None \<Rightarrow> d | Some x \<Rightarrow> if x = 0 then d else x)"

definition updateUniforms :: "real \<Rightarrow> real \<Rightarrow> real \<Rightarrow> controlParams \<Rightarrow> uniforms \<times> fiberUniforms" where
  "updateUniforms thisParticleCount t dt params =
     (\<lparr>time = t,
       deltaTime = dt,
       particleCount = thisParticleCount,
       gravity = js_or (gravity_param params) 0,
       turbulence = js_or (turbulence_param params) 0.5,
       attraction = js_or (attraction_param params) 1,
       morphProgress = js_or (morphProgress_param params) 0,
       mousePosX = js_or (map_option fst (mousePos_param params)) 0,
       mousePosY = js_or (map_option snd (mousePos_param params)) 0,
       hoverRadius = js_or (hoverRadius_param params) 3.0,
       hoverStrength = js_or (hoverStrength_param params) 2.0,
       mouseInfluence = js_or (mouseInfluence_param params) 1.0,
       hoverRepulsion = (if hoverRepulsion_param params then 1.0 else 0.0),
       respawnRate = js_or (respawnRate_param params) 0.2\<rparr>,
      \<lparr>maxDistance = js_or (connectionDistance_param params) 2.0,
       springStrength = js_or (fiberStrength_param params) 0.5,
       springDamping = js_or (fiberDamping_param params) 0.05,
       fiberDeltaTime = dt\<rparr>)"

section \<open>The CPU morph tween\<close>

text \<open>
  One run of \<open>animate\<close> inside \<open>manualMorph\<close> (src/unnamed/part_000). \<open>dest[i]\<close> beyond the end of \<open>dest\<close> is
  \<open>undefined\<close> and the coordinate becomes NaN, written \<open>None\<close>.
\<close>

definition progress :: "real \<Rightarrow> real \<Rightarrow> real" where
  "progress elapsed duration = min (elapsed / duration) 1"

definition easedProgress :: "real \<Rightarrow> real" where
  "easedProgress p = (if p < 0.5 then 2 * p * p else 1 - (- 2 * p + 2)\<^sup>2 / 2)"

fun morphCoords :: "real list \<Rightarrow> real list \<Rightarrow> real \<Rightarrow> real option list" where
  "morphCoords [] dest e = []"
| "morphCoords (s # startPositions) [] e = None # morphCoords startPositions [] e"
| "morphCoords (s # startPositions) (d # dest) e =
     Some (s + (d - s) * e) # morphCoords startPositions dest e"

definition manualMorph_animate :: "real list \<Rightarrow> real list \<Rightarrow> real \<Rightarrow> real \<Rightarrow> real option list" where
  "manualMorph_animate startPositions dest elapsed duration =
     morphCoords startPositions dest (easedProgress (progress elapsed duration))"

section \<open>Frames and readbacks\<close>

text \<open>
  The host loop of src/unnamed/part_000 (\<open>animate\<close>, \<open>syncWebGPUParticles\<close>) with
  \<open>readParticleData\<close> of src/unnamed/part_003, as far as the readback goes. \<open>computed\<close> counts the \<open>compute()\<close>
  submissions and so names the content of the particle buffer; \<open>inFlight\<close> holds, for
  every \<open>readParticleData\<close> whose \<open>mapAsync\<close> has not resolved, the buffer content it
  copied; \<open>mirror\<close> is the content last written into the geometry arrays. \<open>animate\<close> is one
  frame, given the value of \<open>controlState.morphProgress\<close>; it calls \<open>syncWebGPUParticles\<close>
  without \<open>await\<close>, so the call runs up to its first \<open>await\<close> and the frame goes on.
  \<open>resolved\<close> is the rest of \<open>syncWebGPUParticles\<close>, run when the \<open>k\<close>-th pending map
  resolves. The guard \<open>!webgpuSystem || !particles\<close> of \<open>syncWebGPUParticles\<close> is false
  wherever \<open>animate\<close> calls it.
\<close>

record hostState =
  useWebGPU :: bool
  computed :: nat
  inFlight :: "nat list"
  mirror :: "nat option"

definition syncWebGPUParticles :: "hostState \<Rightarrow> hostState" where
  "syncWebGPUParticles s = s\<lparr>inFlight := inFlight s @ [computed s]\<rparr>"

definition animate :: "real \<Rightarrow> hostState \<Rightarrow> hostState" where
  "animate morphProgressNow s =
     (if useWebGPU s then
        (let s1 = s\<lparr>computed := computed s + 1\<rparr>
         in if morphProgressNow > 0 then syncWebGPUParticles s1 else s1)
      else s)"

definition resolved :: "nat \<Rightarrow> hostState \<Rightarrow> hostState" where
  "resolved k s =
     (if k < length (inFlight s)
      then s\<lparr>mirror := Some (inFlight s ! k),
             inFlight := take k (inFlight s) @ drop (Suc k) (inFlight s)\<rparr>
      else s)"

datatype event = Frame real | Resolved nat

fun step :: "event \<Rightarrow> hostState \<Rightarrow> hostState" where
  "step (Frame morphProgressNow) s = animate morphProgressNow s"
| "step (Resolved k) s = resolved k s"

fun run :: "event list \<Rightarrow> hostState \<Rightarrow> hostState" where
  "run [] s = s"
| "run (e # es) s = run es (step e s)"

fun issues :: "event \<Rightarrow> bool" where
  "issues (Frame morphProgressNow) = (morphProgressNow > 0)"
| "issues (Resolved k) = False"

section \<open>Concrete frames and particles\<close>

text \<open>A noise field that is zero everywhere, for evaluating the shader on concrete inputs.\<close>

definition flatNoise :: "vec3 \<Rightarrow> real" where
  "flatNoise p = 0"

definition originParticle :: "real \<Rightarrow> particle" where
  "originParticle l =
     \<lparr>position = Vec3 0 0 0, velocity = Vec3 0 0 0, life = l, size = 0.03,
      color = Vec3 0.1 0.4 0.9, targetPos = Vec3 0 0 0\<rparr>"

text \<open>One second per frame, gravity 1, no turbulence, pointer switched off.\<close>

definition gravityFrame :: uniforms where
  "gravityFrame =
     \<lparr>time = 0, deltaTime = 1, particleCount = 1, gravity = 1, turbulence = 0,
      attraction = 1, morphProgress = 0, mousePosX = 0, mousePosY = 0, hoverRadius = 0,
      hoverStrength = 2, mouseInfluence = 1, hoverRepulsion = 0, respawnRate = 0.2\<rparr>"

text \<open>
  A particle on the x axis at distance \<open>d\<close> from the origin, and a frame whose pointer sits
  at the origin with radius \<open>r\<close>, strength 1, influence 1, in repel mode.
\<close>

definition axisParticle :: "real \<Rightarrow> particle" where
  "axisParticle d =
     \<lparr>position = Vec3 d 0 0, velocity = Vec3 0 0 0, life = 2, size = 0.03,
      color = Vec3 0.1 0.4 0.9, targetPos = Vec3 d 0 0\<rparr>"

definition repelFrame :: "real \<Rightarrow> uniforms" where
  "repelFrame r =
     \<lparr>time = 0, deltaTime = 1 / 60, particleCount = 1, gravity = 0, turbulence = 0.5,
      attraction = 1, morphProgress = 0, mousePosX = 0, mousePosY = 0, hoverRadius = r,
      hoverStrength = 1, mouseInfluence = 1, hoverRepulsion = 1, respawnRate = 0.2\<rparr>"

definition attractFrame :: "real \<Rightarrow> uniforms" where
  "attractFrame r = (repelFrame r)\<lparr>hoverRepulsion := 0\<rparr>"

text \<open>
  A particle at rest at \<open>(x, 0, 0)\<close>, a fiber from particle 0 to particle 1 with resting
  length 1, and fiber uniforms with spring strength 1, no damping, one second per frame.
\<close>

definition restParticle :: "real \<Rightarrow> particle" where
  "restParticle x =
     \<lparr>position = Vec3 x 0 0, velocity = Vec3 0 0 0, life = 2, size = 0.03,
      color = Vec3 0.1 0.4 0.9, targetPos = Vec3 x 0 0\<rparr>"

definition unitFiber :: "real \<Rightarrow> fiber" where
  "unitFiber a = \<lparr>start = 0, end_index = 1, strength = 0.5, length_rest = 1, isActive = a\<rparr>"

definition springFrame :: "real \<Rightarrow> fiberUniforms" where
  "springFrame m = \<lparr>maxDistance = m, springStrength = 1, springDamping = 0, fiberDeltaTime = 1\<rparr>"

text \<open>A host with WebGPU running, nothing computed and nothing pending.\<close>

definition freshHost :: hostState where
  "freshHost = \<lparr>useWebGPU = True, computed = 0, inFlight = [], mirror = None\<rparr>"

text \<open>A parameter snapshot in which every numeric property is zero.\<close>

definition zeroParams :: controlParams where
  "zeroParams =
     \<lparr>gravity_param = Some 0, turbulence_param = Some 0, attraction_param = Some 0,
      morphProgress_param = Some 0, mousePos_param = Some (0, 0), hoverRadius_param = Some 0,
      hoverStrength_param = Some 0, mouseInfluence_param = Some 0, hoverRepulsion_param = False,
      respawnRate_param = Some 0, connectionDistance_param = Some 0,
      fiberStrength_param = Some 0, fiberDamping_param = Some 0\<rparr>"

definition controlsFrame :: fiberUniforms_controls where
  "controlsFrame = \<lparr>maxDistance_c = 2, springStrength_c = 0.5, damping_c = 0.95, time_c = 0\<rparr>"

section \<open>Vector facts\<close>

lemma hash_range: "0 \<le> hash p \<and> hash p < 1"
  unfolding hash_def by (simp add: frac_lt_1)

lemma vlength_spherical:
  "vlength (Vec3 (r * sin phi * cos theta) (r * sin phi * sin theta) (r * cos phi)) = \<bar>r\<bar>"
proof -
  have "(r * sin phi * cos theta)\<^sup>2 + (r * sin phi * sin theta)\<^sup>2 + (r * cos phi)\<^sup>2
        = r\<^sup>2 * ((sin phi)\<^sup>2 * ((cos theta)\<^sup>2 + (sin theta)\<^sup>2) + (cos phi)\<^sup>2)"
    by (simp only: power_mult_distrib distrib_left mult.assoc mult.commute mult.left_commute
          add.assoc add.commute add.left_commute)
  also have "\<dots> = r\<^sup>2"
    by simp
  finally have "dot (Vec3 (r * sin phi * cos theta) (r * sin phi * sin theta) (r * cos phi))
                    (Vec3 (r * sin phi * cos theta) (r * sin phi * sin theta) (r * cos phi)) = r\<^sup>2"
    by (simp add: dot_def power2_eq_square)
  then show ?thesis
    by (simp add: vlength_def)
qed

lemma respawn_fields:
  "velocity (respawn u p) = Vec3 0 0 0"
  "life (respawn u p) = 1 + hash (position (respawn u p)) * 2"
  "size (respawn u p) = size p"
  "color (respawn u p) = color p"
  "targetPos (respawn u p) = targetPos p"
  by (simp_all add: respawn_def Let_def)

lemma respawn_position_length:
  "vlength (position (respawn u p)) = hash (targetPos p) * 5"
proof -
  have "0 \<le> hash (targetPos p) * 5"
    using hash_range [of "targetPos p"] by simp
  then show ?thesis
    by (simp add: respawn_def Let_def vlength_spherical)
qed

lemma lifecycle_respawn: "life (decay u p) \<le> 0 \<Longrightarrow> lifecycle u p = respawn u (decay u p)"
  by (simp add: lifecycle_def Let_def)

lemma hash_origin: "hash (Vec3 0 0 0) = 0"
  by (simp add: hash_def dot_def)

lemma respawn_origin:
  "respawn gravityFrame (decay gravityFrame (originParticle l)) = originParticle 1"
  by (simp add: respawn_def decay_def gravityFrame_def originParticle_def Let_def vadd_def
      splat_def hash_origin)

lemma turbulence_off: "turbulence u = 0 \<Longrightarrow> turbulenceForce sn u p = Vec3 0 0 0"
  by (simp add: turbulenceForce_def Let_def smul_def)

lemma totalForce_gravityFrame:
  "totalForce sn gravityFrame [] 0 (originParticle l) = Vec3 0 (- 1) 0"
proof -
  have t: "turbulenceForce sn gravityFrame (originParticle l) = Vec3 0 0 0"
    by (rule turbulence_off) (simp add: gravityFrame_def)
  have g: "gravityForce gravityFrame = Vec3 0 (- 1) 0"
    by (simp add: gravityForce_def gravityFrame_def)
  have a: "targetForce gravityFrame [] 0 (originParticle l) = Vec3 0 0 0"
    by (simp add: targetForce_def attractionTarget_def originParticle_def vsub_def smul_def)
  have m: "mouseForce gravityFrame (originParticle l) = Vec3 0 0 0"
    by (simp add: mouseForce_def gravityFrame_def)
  show ?thesis
    by (simp add: totalForce_def t g a m vadd_def)
qed

lemma vlength_nonneg: "0 \<le> vlength v"
  by (simp add: vlength_def dot_def)

lemma vlength_smul: "vlength (smul v s) = \<bar>s\<bar> * vlength v"
proof -
  have "dot (smul v s) (smul v s) = s\<^sup>2 * dot v v"
    by (simp add: dot_def smul_def power2_eq_square algebra_simps)
  then show ?thesis
    by (simp add: vlength_def real_sqrt_mult)
qed

lemma vlength_vneg: "vlength (vneg v) = vlength v"
  by (simp add: vlength_def dot_def vneg_def)

lemma vlength_unit: "0 < vlength v \<Longrightarrow> vlength (sdiv v (vlength v)) = 1"
proof -
  assume pos: "0 < vlength v"
  have "sdiv v (vlength v) = smul v (1 / vlength v)"
    by (simp add: sdiv_def smul_def)
  then have "vlength (sdiv v (vlength v)) = \<bar>1 / vlength v\<bar> * vlength v"
    by (simp only: vlength_smul)
  with pos show ?thesis
    by simp
qed

lemma vlength_axis: "vlength (Vec3 x 0 0) = \<bar>x\<bar>"
  by (simp add: vlength_def dot_def)

section \<open>Facts about the fiber shader\<close>

lemma fiberMain_length: "length (fst (fiberMain u index st)) = length (fst st)"
  by (simp add: fiberMain_def Let_def)

lemma fiberMain_inactive:
  assumes "i < length (fst st)" "isActive (fst st ! i) < 0.5"
  shows "fst (fiberMain u index st) ! i = fst st ! i"
proof (cases "index = i")
  case True
  with assms show ?thesis
    by (simp add: fiberMain_def Let_def)
next
  case False
  then show ?thesis
    by (simp add: fiberMain_def Let_def)
qed

lemma fiberRun_inactive:
  "i < length (fst st) \<Longrightarrow> isActive (fst st ! i) < 0.5 \<Longrightarrow>
     length (fst (fiberRun steps st)) = length (fst st) \<and> fst (fiberRun steps st) ! i = fst st ! i"
proof (induction steps arbitrary: st)
  case Nil
  then show ?case by simp
next
  case (Cons a steps)
  obtain u index where a: "a = (u, index)"
    by (cases a)
  have l: "i < length (fst (fiberMain u index st))"
    using Cons.prems by (simp add: fiberMain_length)
  have k: "isActive (fst (fiberMain u index st) ! i) < 0.5"
    using Cons.prems by (simp add: fiberMain_inactive)
  from Cons.IH [OF l k] show ?case
    using Cons.prems by (simp add: a fiberMain_length fiberMain_inactive)
qed

lemma fiberMain_break:
  assumes "index < length fibers" "\<not> isActive (fibers ! index) < 0.5"
    and "start (fibers ! index) < length particles" "end_index (fibers ! index) < length particles"
    and "currentDistance (particles ! start (fibers ! index)) (particles ! end_index (fibers ! index))
           > maxDistance u"
  shows "fiberMain u index (fibers, particles)
           = (fibers[index := (fibers ! index)\<lparr>isActive := 0\<rparr>], particles)"
  using assms by (simp add: fiberMain_def Let_def)

lemma fiberMain_spring:
  assumes "index < length fibers" "\<not> isActive (fibers ! index) < 0.5"
    and "start (fibers ! index) < length particles" "end_index (fibers ! index) < length particles"
    and "currentDistance (particles ! start (fibers ! index)) (particles ! end_index (fibers ! index))
           \<le> maxDistance u"
    and "0.0001 \<le> currentDistance (particles ! start (fibers ! index)) (particles ! end_index (fibers ! index))"
  shows "fiberMain u index (fibers, particles)
           = (fibers[index := (fibers ! index)
                 \<lparr>strength := vlength (fiberForce u (fibers ! index)
                      (particles ! start (fibers ! index)) (particles ! end_index (fibers ! index)))\<rparr>],
              (particles[start (fibers ! index) := (particles ! start (fibers ! index))
                  \<lparr>velocity := vadd (velocity (particles ! start (fibers ! index)))
                      (deltaVelocity u (fibers ! index)
                         (particles ! start (fibers ! index)) (particles ! end_index (fibers ! index)))\<rparr>])
               [end_index (fibers ! index) := (particles ! end_index (fibers ! index))
                  \<lparr>velocity := vsub (velocity (particles ! end_index (fibers ! index)))
                      (deltaVelocity u (fibers ! index)
                         (particles ! start (fibers ! index)) (particles ! end_index (fibers ! index)))\<rparr>])"
  using assms by (simp add: fiberMain_def Let_def)

lemma direction_unit: "0 < currentDistance a b \<Longrightarrow> vlength (direction a b) = 1"
  by (simp add: direction_def currentDistance_def vlength_unit)

lemma smul_add: "vadd (smul d a) (smul d b) = smul d (a + b)"
  by (simp add: vadd_def smul_def algebra_simps)

lemma fiberForce_along:
  "fiberForce u f a b = smul (direction a b) (springForceMagnitude u f a b + dampingForceMagnitude u a b)"
  by (simp add: fiberForce_def Let_def smul_add)

lemma currentDistance_rest: "currentDistance (restParticle a) (restParticle b) = \<bar>b - a\<bar>"
  by (simp add: currentDistance_def restParticle_def vsub_def vlength_axis)

lemma direction_rest: "direction (restParticle a) (restParticle b) = Vec3 ((b - a) / \<bar>b - a\<bar>) 0 0"
  by (simp add: direction_def currentDistance_rest) (simp add: restParticle_def vsub_def sdiv_def)

lemma deltaVelocity_rest:
  "deltaVelocity (springFrame m) (unitFiber x) (restParticle a) (restParticle b)
     = Vec3 ((b - a) / \<bar>b - a\<bar> * (\<bar>b - a\<bar> - 1)) 0 0"
  by (simp add: deltaVelocity_def fiberForce_along springForceMagnitude_def
      dampingForceMagnitude_def direction_rest currentDistance_rest Let_def)
     (simp add: springFrame_def unitFiber_def smul_def)

lemma unitFiber_fields:
  "start (unitFiber a) = 0" "end_index (unitFiber a) = 1" "strength (unitFiber a) = 0.5"
  "length_rest (unitFiber a) = 1" "isActive (unitFiber a) = a"
  by (simp_all add: unitFiber_def)

lemma springFrame_fields:
  "maxDistance (springFrame m) = m" "springStrength (springFrame m) = 1"
  "springDamping (springFrame m) = 0" "fiberDeltaTime (springFrame m) = 1"
  by (simp_all add: springFrame_def)

lemma fiberForce_rest:
  "fiberForce (springFrame m) (unitFiber x) (restParticle a) (restParticle b)
     = Vec3 ((b - a) / \<bar>b - a\<bar> * (\<bar>b - a\<bar> - 1)) 0 0"
  by (simp add: fiberForce_along springForceMagnitude_def
      dampingForceMagnitude_def direction_rest currentDistance_rest Let_def
      unitFiber_fields springFrame_fields smul_def)

section \<open>The respawn branch\<close>

text \<open>
  C2. A particle that takes the respawn branch (its decremented life is at most 0) leaves
  the life-cycle step with all three fields reset at once: the life is in \<open>[1, 3)\<close>, the
  velocity is zero and the position is less than 5 away from the origin; size, colour and
  target are kept.
\<close>

theorem respawn_reset:
  assumes "life (decay u p) \<le> 0"
  shows "lifecycle u p = respawn u (decay u p)
       \<and> 1 \<le> life (lifecycle u p) \<and> life (lifecycle u p) < 3
       \<and> velocity (lifecycle u p) = Vec3 0 0 0
       \<and> vlength (position (lifecycle u p)) < 5
       \<and> size (lifecycle u p) = size p
       \<and> color (lifecycle u p) = color p
       \<and> targetPos (lifecycle u p) = targetPos p"
proof -
  let ?r = "respawn u (decay u p)"
  have eq: "lifecycle u p = ?r"
    using assms by (rule lifecycle_respawn)
  have l: "1 \<le> life ?r \<and> life ?r < 3"
    using hash_range [of "position ?r"] by (simp add: respawn_fields)
  have "targetPos (decay u p) = targetPos p"
    by (simp add: decay_def)
  then have "vlength (position ?r) = hash (targetPos p) * 5"
    by (simp add: respawn_position_length)
  then have d: "vlength (position ?r) < 5"
    using hash_range [of "targetPos p"] by simp
  have k: "size ?r = size p \<and> color ?r = color p \<and> targetPos ?r = targetPos p"
    by (simp add: respawn_fields decay_def)
  show ?thesis
    using l d k by (simp add: eq respawn_fields)
qed

theorem respawn_reset_witness:
  "life (decay gravityFrame (originParticle 0.1)) \<le> 0
   \<and> 1 \<le> life (lifecycle gravityFrame (originParticle 0.1))
   \<and> life (lifecycle gravityFrame (originParticle 0.1)) < 3
   \<and> velocity (lifecycle gravityFrame (originParticle 0.1)) = Vec3 0 0 0
   \<and> vlength (position (lifecycle gravityFrame (originParticle 0.1))) < 5"
proof -
  have h: "life (decay gravityFrame (originParticle 0.1)) \<le> 0"
    by (simp add: decay_def gravityFrame_def originParticle_def)
  from respawn_reset [OF h] h show ?thesis
    by blast
qed

text \<open>
  C1 as stated fails: the respawn branch does not replace the forces and the integration.
  At one second per frame with gravity 1, a particle at the origin with life 0.1 respawns at
  the origin with zero velocity and life 1, and the same invocation then moves it under
  gravity: it ends with velocity and position \<open>(0, -0.98, 0)\<close>.
\<close>

theorem respawn_replaces_forces_counterexample:
  "life (decay gravityFrame (originParticle 0.1)) \<le> 0
   \<and> lifecycle gravityFrame (originParticle 0.1) = originParticle 1
   \<and> velocity (particleStep flatNoise gravityFrame [] 0 (originParticle 0.1)) = Vec3 0 (- 0.98) 0
   \<and> position (particleStep flatNoise gravityFrame [] 0 (originParticle 0.1)) = Vec3 0 (- 0.98) 0
   \<and> particleStep flatNoise gravityFrame [] 0 (originParticle 0.1)
       \<noteq> lifecycle gravityFrame (originParticle 0.1)"
proof -
  have h: "life (decay gravityFrame (originParticle 0.1)) \<le> 0"
    by (simp add: decay_def gravityFrame_def originParticle_def)
  have r: "lifecycle gravityFrame (originParticle 0.1) = originParticle 1"
    using h by (simp add: lifecycle_respawn respawn_origin)
  have i: "integrate flatNoise gravityFrame [] 0 (originParticle 1)
           = (originParticle 1)\<lparr>velocity := Vec3 0 (- 0.98) 0, position := Vec3 0 (- 0.98) 0\<rparr>"
    by (simp add: integrate_def Let_def totalForce_gravityFrame)
       (simp add: gravityFrame_def originParticle_def vadd_def smul_def)
  have v: "velocity (particleStep flatNoise gravityFrame [] 0 (originParticle 0.1))
           = Vec3 0 (- 0.98) 0"
    by (simp add: particleStep_def r i updateVisuals_def Let_def)
  have p: "position (particleStep flatNoise gravityFrame [] 0 (originParticle 0.1))
           = Vec3 0 (- 0.98) 0"
    by (simp add: particleStep_def r i updateVisuals_def Let_def)
  have "velocity (originParticle 1) = Vec3 0 0 0"
    by (simp add: originParticle_def)
  with v have n: "particleStep flatNoise gravityFrame [] 0 (originParticle 0.1) \<noteq> originParticle 1"
    by auto
  show ?thesis
    using h r v p n by simp
qed

text \<open>
  C1, amended. A particle that takes the respawn branch is reset and then goes through the
  forces and the integration of the same invocation, computed from the reset state: its
  life stays the re-seeded one, its velocity is the total force at the reset position
  times \<open>deltaTime\<close> times 0.98, and its position is the reset position moved by that
  velocity times \<open>deltaTime\<close>.
\<close>

theorem respawn_then_forces:
  assumes "life (decay u p) \<le> 0"
  shows "life (particleStep sn u targets index p) = life (respawn u (decay u p))
       \<and> velocity (particleStep sn u targets index p)
           = smul (smul (totalForce sn u targets index (respawn u (decay u p))) (deltaTime u)) 0.98
       \<and> position (particleStep sn u targets index p)
           = vadd (position (respawn u (decay u p)))
                  (smul (velocity (particleStep sn u targets index p)) (deltaTime u))"
proof -
  have eq: "lifecycle u p = respawn u (decay u p)"
    using assms by (rule lifecycle_respawn)
  have z: "vadd (Vec3 0 0 0) w = w" for w
    by (cases w) (simp add: vadd_def)
  show ?thesis
    by (simp add: particleStep_def eq updateVisuals_def integrate_def Let_def respawn_fields z)
qed

theorem respawn_then_forces_witness:
  "life (decay gravityFrame (originParticle 0.1)) \<le> 0
   \<and> life (particleStep flatNoise gravityFrame [] 0 (originParticle 0.1)) = 1
   \<and> velocity (particleStep flatNoise gravityFrame [] 0 (originParticle 0.1)) = Vec3 0 (- 0.98) 0"
proof -
  have h: "life (decay gravityFrame (originParticle 0.1)) \<le> 0"
    by (simp add: decay_def gravityFrame_def originParticle_def)
  have d: "deltaTime gravityFrame = 1"
    by (simp add: gravityFrame_def)
  have l: "life (originParticle 1) = 1"
    by (simp add: originParticle_def)
  show ?thesis
    using h respawn_then_forces [OF h, of flatNoise "[]" 0]
    by (simp add: respawn_origin totalForce_gravityFrame d l smul_def)
qed

section \<open>The pointer force\<close>

lemma mouseForce_inside:
  assumes "vlength (mouseVec u p) < hoverRadius u"
  shows "mouseForce u p =
     (if hoverRepulsion u > 0.5
      then smul (sdiv (mouseVec u p) (vlength (mouseVec u p))) (mouseStrength u p)
      else smul (vneg (sdiv (mouseVec u p) (vlength (mouseVec u p)))) (mouseStrength u p))"
proof -
  have "0 \<le> vlength (mouseVec u p)"
    by (rule vlength_nonneg)
  with assms have "0 < hoverRadius u"
    by simp
  with assms show ?thesis
    by (simp add: mouseForce_def Let_def mouseVec_def mouseStrength_def)
qed

lemma mouseForce_outside:
  assumes "hoverRadius u \<le> vlength (mouseVec u p)"
  shows "mouseForce u p = Vec3 0 0 0"
  using assms by (simp add: mouseForce_def Let_def mouseVec_def)

text \<open>
  C6. Let \<open>d\<close> be the distance of the particle to the pointer point and \<open>away\<close> the unit
  vector from the pointer to the particle. For \<open>0 < d < hoverRadius\<close> the pointer force is
  \<open>away\<close> times \<open>(1 - d / hoverRadius)\<^sup>2 * hoverStrength * mouseInfluence\<close> in repel mode and
  the opposite vector in attract mode, so its length is that product (for a non-negative
  product of strength and influence). For \<open>d \<ge> hoverRadius\<close> the force is zero. With
  repel mode, radius 5, strength 1, influence 1 and \<open>d = 2.5\<close> the force is \<open>away\<close> times
  0.25 and has length 0.25.
\<close>

theorem pointer_force:
  "(0 < vlength (mouseVec u p) \<and> vlength (mouseVec u p) < hoverRadius u \<longrightarrow>
      vlength (sdiv (mouseVec u p) (vlength (mouseVec u p))) = 1
      \<and> (hoverRepulsion u > 0.5 \<longrightarrow>
           mouseForce u p = smul (sdiv (mouseVec u p) (vlength (mouseVec u p))) (mouseStrength u p))
      \<and> (\<not> hoverRepulsion u > 0.5 \<longrightarrow>
           mouseForce u p = smul (vneg (sdiv (mouseVec u p) (vlength (mouseVec u p)))) (mouseStrength u p))
      \<and> vlength (mouseForce u p) = \<bar>mouseStrength u p\<bar>
      \<and> (0 \<le> hoverStrength u * mouseInfluence u \<longrightarrow>
           vlength (mouseForce u p) = mouseStrength u p))
   \<and> (hoverRadius u \<le> vlength (mouseVec u p) \<longrightarrow> mouseForce u p = Vec3 0 0 0)
   \<and> (hoverRepulsion u > 0.5 \<and> hoverRadius u = 5 \<and> hoverStrength u = 1 \<and> mouseInfluence u = 1
        \<and> vlength (mouseVec u p) = 2.5 \<longrightarrow>
      mouseStrength u p = 0.25
      \<and> mouseForce u p = smul (sdiv (mouseVec u p) (vlength (mouseVec u p))) 0.25
      \<and> vlength (mouseForce u p) = 0.25)"
proof (intro conjI impI)
  assume a: "0 < vlength (mouseVec u p) \<and> vlength (mouseVec u p) < hoverRadius u"
  then show unit: "vlength (sdiv (mouseVec u p) (vlength (mouseVec u p))) = 1"
    by (simp add: vlength_unit)
  show "mouseForce u p = smul (sdiv (mouseVec u p) (vlength (mouseVec u p))) (mouseStrength u p)"
    if "hoverRepulsion u > 0.5"
    using a that by (simp add: mouseForce_inside)
  show "mouseForce u p = smul (vneg (sdiv (mouseVec u p) (vlength (mouseVec u p)))) (mouseStrength u p)"
    if "\<not> hoverRepulsion u > 0.5"
    using a that by (simp add: mouseForce_inside)
  show len: "vlength (mouseForce u p) = \<bar>mouseStrength u p\<bar>"
    using a unit by (simp add: mouseForce_inside vlength_smul vlength_vneg)
  show "vlength (mouseForce u p) = mouseStrength u p"
    if "0 \<le> hoverStrength u * mouseInfluence u"
  proof -
    have "0 \<le> (1 - vlength (mouseVec u p) / hoverRadius u)\<^sup>2 * (hoverStrength u * mouseInfluence u)"
      using that by (rule mult_nonneg_nonneg [OF zero_le_power2])
    then have "0 \<le> mouseStrength u p"
      by (simp add: mouseStrength_def mult.assoc)
    with len show ?thesis
      by simp
  qed
next
  assume "hoverRadius u \<le> vlength (mouseVec u p)"
  then show "mouseForce u p = Vec3 0 0 0"
    by (rule mouseForce_outside)
next
  assume s: "hoverRepulsion u > 0.5 \<and> hoverRadius u = 5 \<and> hoverStrength u = 1
             \<and> mouseInfluence u = 1 \<and> vlength (mouseVec u p) = 2.5"
  from s have rep: "hoverRepulsion u > 0.5"
    by blast
  from s have rad: "hoverRadius u = 5"
    by blast
  from s have str: "hoverStrength u = 1" "mouseInfluence u = 1"
    by blast+
  from s have dist: "vlength (mouseVec u p) = 2.5"
    by blast
  show q: "mouseStrength u p = 0.25"
    unfolding mouseStrength_def rad str dist by (simp add: power2_eq_square)
  have inside: "vlength (mouseVec u p) < hoverRadius u"
    unfolding rad dist by simp
  have "mouseForce u p = smul (sdiv (mouseVec u p) (vlength (mouseVec u p))) (mouseStrength u p)"
    using mouseForce_inside [OF inside] rep by simp
  then show f: "mouseForce u p = smul (sdiv (mouseVec u p) (vlength (mouseVec u p))) 0.25"
    by (simp only: q)
  have "0 < vlength (mouseVec u p)"
    unfolding dist by simp
  then have "vlength (sdiv (mouseVec u p) (vlength (mouseVec u p))) = 1"
    by (rule vlength_unit)
  then show "vlength (mouseForce u p) = 0.25"
    by (simp only: f vlength_smul) simp
qed

theorem pointer_force_witness:
  "vlength (mouseVec (repelFrame 5) (axisParticle 2.5)) = 2.5
   \<and> mouseForce (repelFrame 5) (axisParticle 2.5) = Vec3 0.25 0 0
   \<and> vlength (mouseForce (repelFrame 5) (axisParticle 2.5)) = 0.25
   \<and> hoverRadius (repelFrame 5) \<le> vlength (mouseVec (repelFrame 5) (axisParticle 6))
   \<and> mouseForce (repelFrame 5) (axisParticle 6) = Vec3 0 0 0
   \<and> mouseForce (attractFrame 5) (axisParticle 2.5) = Vec3 (- 0.25) 0 0"
proof -
  have ad: "0 < vlength (mouseVec (attractFrame 5) (axisParticle 2.5))
            \<and> vlength (mouseVec (attractFrame 5) (axisParticle 2.5)) < hoverRadius (attractFrame 5)"
    by (simp add: mouseVec_def attractFrame_def repelFrame_def axisParticle_def vsub_def vlength_axis)
  have am: "\<not> hoverRepulsion (attractFrame 5) > 0.5"
    by (simp add: attractFrame_def)
  have "mouseForce (attractFrame 5) (axisParticle 2.5)
          = smul (vneg (sdiv (mouseVec (attractFrame 5) (axisParticle 2.5))
                             (vlength (mouseVec (attractFrame 5) (axisParticle 2.5)))))
                 (mouseStrength (attractFrame 5) (axisParticle 2.5))"
    using pointer_force [of "attractFrame 5" "axisParticle 2.5"] ad am by blast
  also have "\<dots> = Vec3 (- 0.25) 0 0"
    by (simp add: mouseStrength_def mouseVec_def attractFrame_def repelFrame_def axisParticle_def
        vsub_def vlength_axis sdiv_def vneg_def smul_def power2_eq_square)
  finally have at: "mouseForce (attractFrame 5) (axisParticle 2.5) = Vec3 (- 0.25) 0 0" .
  have d: "vlength (mouseVec (repelFrame 5) (axisParticle 2.5)) = 2.5"
    by (simp add: mouseVec_def repelFrame_def axisParticle_def vsub_def vlength_axis)
  have e: "hoverRadius (repelFrame 5) \<le> vlength (mouseVec (repelFrame 5) (axisParticle 6))"
    by (simp add: mouseVec_def repelFrame_def axisParticle_def vsub_def vlength_axis)
  have u: "hoverRepulsion (repelFrame 5) > 0.5" "hoverRadius (repelFrame 5) = 5"
    "hoverStrength (repelFrame 5) = 1" "mouseInfluence (repelFrame 5) = 1"
    by (simp_all add: repelFrame_def)
  have m: "mouseVec (repelFrame 5) (axisParticle 2.5) = Vec3 2.5 0 0"
    by (simp add: mouseVec_def repelFrame_def axisParticle_def vsub_def)
  have k: "smul (sdiv (mouseVec (repelFrame 5) (axisParticle 2.5))
                      (vlength (mouseVec (repelFrame 5) (axisParticle 2.5)))) 0.25
           = Vec3 0.25 0 0"
    unfolding m by (simp add: vlength_axis sdiv_def smul_def)
  have "mouseForce (repelFrame 5) (axisParticle 2.5)
          = smul (sdiv (mouseVec (repelFrame 5) (axisParticle 2.5))
                       (vlength (mouseVec (repelFrame 5) (axisParticle 2.5)))) 0.25
        \<and> vlength (mouseForce (repelFrame 5) (axisParticle 2.5)) = 0.25"
    using pointer_force [of "repelFrame 5" "axisParticle 2.5"] d u by blast
  then have f: "mouseForce (repelFrame 5) (axisParticle 2.5) = Vec3 0.25 0 0"
    and l: "vlength (mouseForce (repelFrame 5) (axisParticle 2.5)) = 0.25"
    unfolding k by blast+
  have g: "mouseForce (repelFrame 5) (axisParticle 6) = Vec3 0 0 0"
    using pointer_force [of "repelFrame 5" "axisParticle 6"] e by blast
  from d f l e g at show ?thesis
    by blast
qed

text \<open>
  C7. With a pointer radius that is zero or negative the pointer branch is not entered:
  the pointer force is the zero vector, the step continues with the other three forces
  only, and the invocation writes the particle back.
\<close>

theorem nonpositive_radius_zero_force:
  assumes "hoverRadius u \<le> 0"
  shows "mouseForce u p = Vec3 0 0 0
       \<and> totalForce sn u targets index p
           = vadd (vadd (turbulenceForce sn u p) (gravityForce u)) (targetForce u targets index p)
       \<and> (index < u32_of_f32 (particleCount u) \<and> index < length ps \<longrightarrow>
            particleMain sn u targets index ps
              = ps[index := particleStep sn u targets index (ps ! index)]
            \<and> mouseForce u (lifecycle u (ps ! index)) = Vec3 0 0 0)"
proof -
  have m: "mouseForce u q = Vec3 0 0 0" for q
    using assms by (simp add: mouseForce_def)
  have z: "vadd w (Vec3 0 0 0) = w" for w
    by (cases w) (simp add: vadd_def)
  show ?thesis
    by (simp add: m totalForce_def z particleMain_def)
qed

theorem nonpositive_radius_zero_force_witness:
  "hoverRadius (repelFrame (- 1)) \<le> 0
   \<and> mouseForce (repelFrame (- 1)) (axisParticle 0.5) = Vec3 0 0 0
   \<and> particleMain flatNoise (repelFrame (- 1)) [] 0 [axisParticle 0.5]
       = [particleStep flatNoise (repelFrame (- 1)) [] 0 (axisParticle 0.5)]"
proof -
  have h: "hoverRadius (repelFrame (- 1)) \<le> 0"
    by (simp add: repelFrame_def)
  have c: "(0::nat) < u32_of_f32 (particleCount (repelFrame (- 1)))"
    by (simp add: repelFrame_def u32_of_f32_def)
  show ?thesis
    using h c nonpositive_radius_zero_force [OF h, where sn = flatNoise and targets = "[]"
        and index = 0 and p = "axisParticle 0.5" and ps = "[axisParticle 0.5]"]
    by simp
qed

section \<open>The fiber update\<close>

text \<open>
  C4. An active fiber whose endpoints (both inside the particle buffer) are further apart
  than \<open>maxDistance\<close> is written back with \<open>isActive = 0\<close> and the particle buffer is
  left as it was, so no velocity changes. A fiber whose \<open>isActive\<close> is below 0.5 is
  skipped by every invocation: after any sequence of fiber updates it is the same fiber,
  still inactive.
\<close>

theorem fiber_break_permanent:
  "(index < length fibers \<and> \<not> isActive (fibers ! index) < 0.5
      \<and> start (fibers ! index) < length particles \<and> end_index (fibers ! index) < length particles
      \<and> currentDistance (particles ! start (fibers ! index)) (particles ! end_index (fibers ! index))
            > maxDistance u \<longrightarrow>
      fiberMain u index (fibers, particles)
        = (fibers[index := (fibers ! index)\<lparr>isActive := 0\<rparr>], particles))
   \<and> (i < length fibers \<and> isActive (fibers ! i) < 0.5 \<longrightarrow>
        length (fst (fiberRun steps (fibers, particles))) = length fibers
        \<and> fst (fiberRun steps (fibers, particles)) ! i = fibers ! i
        \<and> isActive (fst (fiberRun steps (fibers, particles)) ! i) < 0.5)"
proof (intro conjI impI)
  assume "index < length fibers \<and> \<not> isActive (fibers ! index) < 0.5
      \<and> start (fibers ! index) < length particles \<and> end_index (fibers ! index) < length particles
      \<and> currentDistance (particles ! start (fibers ! index)) (particles ! end_index (fibers ! index))
            > maxDistance u"
  then show "fiberMain u index (fibers, particles)
        = (fibers[index := (fibers ! index)\<lparr>isActive := 0\<rparr>], particles)"
    by (simp add: fiberMain_break)
next
  assume a: "i < length fibers \<and> isActive (fibers ! i) < 0.5"
  then have r: "length (fst (fiberRun steps (fibers, particles))) = length (fst (fibers, particles))
       \<and> fst (fiberRun steps (fibers, particles)) ! i = fst (fibers, particles) ! i"
    by (intro fiberRun_inactive) simp_all
  from r show "length (fst (fiberRun steps (fibers, particles))) = length fibers"
    by simp
  from r show "fst (fiberRun steps (fibers, particles)) ! i = fibers ! i"
    by simp
  with a show "isActive (fst (fiberRun steps (fibers, particles)) ! i) < 0.5"
    by simp
qed

theorem fiber_break_permanent_witness:
  "fiberMain (springFrame 2) 0 ([unitFiber 1], [restParticle 0, restParticle 3])
     = ([unitFiber 0], [restParticle 0, restParticle 3])
   \<and> fst (fiberRun [(springFrame 10, 0), (springFrame 10, 0)]
             ([unitFiber 0], [restParticle 0, restParticle 3])) ! 0 = unitFiber 0"
proof -
  have b: "(unitFiber 1)\<lparr>isActive := 0\<rparr> = unitFiber 0"
    by (simp add: unitFiber_def)
  have "fiberMain (springFrame 2) 0 ([unitFiber 1], [restParticle 0, restParticle 3])
          = ([unitFiber 1][0 := ([unitFiber 1] ! 0)\<lparr>isActive := 0\<rparr>], [restParticle 0, restParticle 3])"
    using fiber_break_permanent [of 0 "[unitFiber 1]" "[restParticle 0, restParticle 3]" "springFrame 2"]
    by (simp add: unitFiber_fields springFrame_fields currentDistance_rest)
  then have one: "fiberMain (springFrame 2) 0 ([unitFiber 1], [restParticle 0, restParticle 3])
          = ([unitFiber 0], [restParticle 0, restParticle 3])"
    by (simp add: b)
  have two: "fst (fiberRun [(springFrame 10, 0), (springFrame 10, 0)]
             ([unitFiber 0], [restParticle 0, restParticle 3])) ! 0 = unitFiber 0"
    using fiber_break_permanent [where i = 0 and fibers = "[unitFiber 0]"
        and particles = "[restParticle 0, restParticle 3]"
        and steps = "[(springFrame 10, 0), (springFrame 10, 0)]"]
    by (simp add: unitFiber_fields)
  from one two show ?thesis
    by blast
qed

text \<open>
  C5 as stated fails for a separation that is not zero but below the shader's threshold
  0.0001: with endpoints at \<open>(0,0,0)\<close> and \<open>(0.00005,0,0)\<close>, resting length 1 and spring
  strength 1 the velocity delta of the claim is \<open>(-0.99995, 0, 0)\<close>, and the shader
  returns without writing anything.
\<close>

theorem spring_at_tiny_separation_counterexample:
  "currentDistance (restParticle 0) (restParticle 0.00005) = 0.00005
   \<and> deltaVelocity (springFrame 10) (unitFiber 1) (restParticle 0) (restParticle 0.00005)
       = Vec3 (- 0.99995) 0 0
   \<and> fiberMain (springFrame 10) 0 ([unitFiber 1], [restParticle 0, restParticle 0.00005])
       = ([unitFiber 1], [restParticle 0, restParticle 0.00005])"
proof -
  have a: "currentDistance (restParticle 0) (restParticle 0.00005) = 0.00005"
    by (simp add: currentDistance_rest)
  have b: "deltaVelocity (springFrame 10) (unitFiber 1) (restParticle 0) (restParticle 0.00005)
       = Vec3 (- 0.99995) 0 0"
    by (simp add: deltaVelocity_rest)
  have c: "fiberMain (springFrame 10) 0 ([unitFiber 1], [restParticle 0, restParticle 0.00005])
       = ([unitFiber 1], [restParticle 0, restParticle 0.00005])"
    by (simp add: fiberMain_def Let_def currentDistance_rest unitFiber_fields springFrame_fields)
  from a b c show ?thesis
    by blast
qed

text \<open>
  C5, amended. For an active fiber with both endpoints in the buffer and a separation \<open>d\<close>
  with \<open>0.0001 \<le> d \<le> maxDistance\<close>: the direction is a unit vector, the spring force
  is \<open>(d - length) * springStrength\<close> and the damping force
  \<open>(relativeVelocity . direction) * springDamping\<close>, both along the direction; the sum
  times \<open>deltaTime\<close> is added to the start particle's velocity and subtracted from the end
  particle's, and the fiber's strength becomes the length of the total force. For
  endpoints \<open>(0,0,0)\<close> and \<open>(3,0,0)\<close>, resting length 1, spring strength 1, no damping and
  \<open>deltaTime\<close> 1 the spring force is 2 along \<open>+x\<close> and the delta is \<open>(2,0,0)\<close>.
\<close>

theorem spring_force:
  "let f = fibers ! index;
       sp = particles ! start f;
       ep = particles ! end_index f;
       d = currentDistance sp ep;
       dir = direction sp ep;
       F = fiberForce u f sp ep;
       dv = deltaVelocity u f sp ep
   in index < length fibers \<and> \<not> isActive f < 0.5
      \<and> start f < length particles \<and> end_index f < length particles
      \<and> d \<le> maxDistance u \<and> 0.0001 \<le> d \<longrightarrow>
        vlength dir = 1
      \<and> springForceMagnitude u f sp ep = (d - length_rest f) * springStrength u
      \<and> dampingForceMagnitude u sp ep
          = dot (vsub (velocity ep) (velocity sp)) dir * springDamping u
      \<and> F = smul dir (springForceMagnitude u f sp ep + dampingForceMagnitude u sp ep)
      \<and> dv = smul F (fiberDeltaTime u)
      \<and> fiberMain u index (fibers, particles)
          = (fibers[index := f\<lparr>strength := vlength F\<rparr>],
             particles[start f := sp\<lparr>velocity := vadd (velocity sp) dv\<rparr>,
                       end_index f := ep\<lparr>velocity := vsub (velocity ep) dv\<rparr>])
      \<and> (position sp = Vec3 0 0 0 \<and> position ep = Vec3 3 0 0 \<and> length_rest f = 1
           \<and> springStrength u = 1 \<and> springDamping u = 0 \<and> fiberDeltaTime u = 1 \<longrightarrow>
          springForceMagnitude u f sp ep = 2 \<and> dir = Vec3 1 0 0 \<and> dv = Vec3 2 0 0)"
proof -
  let ?f = "fibers ! index"
  let ?sp = "particles ! start ?f"
  let ?ep = "particles ! end_index ?f"
  have scen: "springForceMagnitude u ?f ?sp ?ep = 2 \<and> direction ?sp ?ep = Vec3 1 0 0
              \<and> deltaVelocity u ?f ?sp ?ep = Vec3 2 0 0"
    if s: "position ?sp = Vec3 0 0 0 \<and> position ?ep = Vec3 3 0 0 \<and> length_rest ?f = 1
           \<and> springStrength u = 1 \<and> springDamping u = 0 \<and> fiberDeltaTime u = 1"
  proof -
    have d: "currentDistance ?sp ?ep = 3"
      using s by (simp add: currentDistance_def vsub_def vlength_axis)
    have dir: "direction ?sp ?ep = Vec3 1 0 0"
      using s by (simp add: direction_def d) (simp add: vsub_def sdiv_def)
    have m: "springForceMagnitude u ?f ?sp ?ep = 2"
      using s by (simp add: springForceMagnitude_def d)
    have z: "dampingForceMagnitude u ?sp ?ep = 0"
      using s by (simp add: dampingForceMagnitude_def)
    have "deltaVelocity u ?f ?sp ?ep = Vec3 2 0 0"
      using s by (simp add: deltaVelocity_def fiberForce_along dir m z smul_def)
    with dir m show ?thesis
      by blast
  qed
  have main: "vlength (direction ?sp ?ep) = 1
      \<and> fiberMain u index (fibers, particles)
          = (fibers[index := ?f\<lparr>strength := vlength (fiberForce u ?f ?sp ?ep)\<rparr>],
             particles[start ?f := ?sp\<lparr>velocity := vadd (velocity ?sp) (deltaVelocity u ?f ?sp ?ep)\<rparr>,
                       end_index ?f := ?ep\<lparr>velocity := vsub (velocity ?ep) (deltaVelocity u ?f ?sp ?ep)\<rparr>])"
    if h: "index < length fibers \<and> \<not> isActive ?f < 0.5
      \<and> start ?f < length particles \<and> end_index ?f < length particles
      \<and> currentDistance ?sp ?ep \<le> maxDistance u \<and> 0.0001 \<le> currentDistance ?sp ?ep"
  proof -
    from h have "0 < currentDistance ?sp ?ep"
      by simp
    then have "vlength (direction ?sp ?ep) = 1"
      by (rule direction_unit)
    moreover have "fiberMain u index (fibers, particles)
          = (fibers[index := ?f\<lparr>strength := vlength (fiberForce u ?f ?sp ?ep)\<rparr>],
             particles[start ?f := ?sp\<lparr>velocity := vadd (velocity ?sp) (deltaVelocity u ?f ?sp ?ep)\<rparr>,
                       end_index ?f := ?ep\<lparr>velocity := vsub (velocity ?ep) (deltaVelocity u ?f ?sp ?ep)\<rparr>])"
      using h by (intro fiberMain_spring) simp_all
    ultimately show ?thesis
      by blast
  qed
  have defs: "springForceMagnitude u ?f ?sp ?ep = (currentDistance ?sp ?ep - length_rest ?f) * springStrength u
      \<and> dampingForceMagnitude u ?sp ?ep
          = dot (vsub (velocity ?ep) (velocity ?sp)) (direction ?sp ?ep) * springDamping u
      \<and> fiberForce u ?f ?sp ?ep = smul (direction ?sp ?ep)
            (springForceMagnitude u ?f ?sp ?ep + dampingForceMagnitude u ?sp ?ep)
      \<and> deltaVelocity u ?f ?sp ?ep = smul (fiberForce u ?f ?sp ?ep) (fiberDeltaTime u)"
    by (simp add: springForceMagnitude_def dampingForceMagnitude_def fiberForce_along
        deltaVelocity_def Let_def)
  show ?thesis
    unfolding Let_def using scen main defs by blast
qed

theorem spring_force_witness:
  "fiberMain (springFrame 10) 0 ([unitFiber 1], [restParticle 0, restParticle 3])
     = ([(unitFiber 1)\<lparr>strength := 2\<rparr>],
        [(restParticle 0)\<lparr>velocity := Vec3 2 0 0\<rparr>, (restParticle 3)\<lparr>velocity := Vec3 (- 2) 0 0\<rparr>])"
proof -
  have v: "velocity (restParticle x) = Vec3 0 0 0" for x
    by (simp add: restParticle_def)
  show ?thesis
    using spring_force [of "[unitFiber 1]" 0 "[restParticle 0, restParticle 3]" "springFrame 10"]
    by (simp add: Let_def unitFiber_fields springFrame_fields currentDistance_rest
        deltaVelocity_rest fiberForce_rest vlength_axis v vadd_def vsub_def)
qed

section \<open>The fiber pass of controls.js and webgpu.js\<close>

lemma mix_zero: "mix a 0 t = a * (1 - t)"
  by (simp add: mix_def)

lemma fiberUpdate_controls_active:
  assumes "isActive f > 0.5"
  shows "fiberUpdate_controls u oob particles f
     = f\<lparr>length_rest := endpointDistance oob particles f,
          isActive := (if endpointDistance oob particles f > maxDistance_c u then 0 else isActive f),
          strength := strength f * (1 - damping_c u)\<rparr>"
  using assms by (simp add: fiberUpdate_controls_def Let_def springForce_controls_def mix_zero)

text \<open>
  C9. In the fiber shader of controls.js and webgpu.js an invocation returns the particle
  buffer as it got it and changes no fiber but its own; of that fiber the endpoint indices
  stay. For an active fiber the spring force \<open>(distance - fiber.length) * springStrength\<close>
  is computed after \<open>fiber.length\<close> has been overwritten with \<open>distance\<close> and is zero, so
  the fiber ends with the distance as length, \<open>isActive = 0\<close> if the distance exceeds
  \<open>maxDistance\<close>, and the strength \<open>mix(strength, 0, damping)\<close>. An inactive fiber is
  written back unchanged.
\<close>

theorem fiber_pass_controls:
  "snd (fiberMain_controls u oob index (fibers, particles)) = particles
   \<and> length (fst (fiberMain_controls u oob index (fibers, particles))) = length fibers
   \<and> (\<forall>j. j \<noteq> index \<longrightarrow> fst (fiberMain_controls u oob index (fibers, particles)) ! j = fibers ! j)
   \<and> (index < length fibers \<longrightarrow>
        fst (fiberMain_controls u oob index (fibers, particles)) ! index
          = fiberUpdate_controls u oob particles (fibers ! index))
   \<and> start (fiberUpdate_controls u oob particles f) = start f
   \<and> end_index (fiberUpdate_controls u oob particles f) = end_index f
   \<and> (isActive f > 0.5 \<longrightarrow>
        springForce_controls u (endpointDistance oob particles f)
            (f\<lparr>length_rest := endpointDistance oob particles f\<rparr>) = 0
        \<and> springForce_controls u (endpointDistance oob particles f)
            (f\<lparr>length_rest := endpointDistance oob particles f, isActive := 0\<rparr>) = 0
        \<and> fiberUpdate_controls u oob particles f
            = f\<lparr>length_rest := endpointDistance oob particles f,
                 isActive := (if endpointDistance oob particles f > maxDistance_c u then 0
                              else isActive f),
                 strength := mix (strength f) 0 (damping_c u)\<rparr>)
   \<and> (\<not> isActive f > 0.5 \<longrightarrow> fiberUpdate_controls u oob particles f = f)"
proof -
  have a: "snd (fiberMain_controls u oob index (fibers, particles)) = particles"
    by (simp add: fiberMain_controls_def Let_def)
  have b: "length (fst (fiberMain_controls u oob index (fibers, particles))) = length fibers"
    by (simp add: fiberMain_controls_def Let_def)
  have c: "\<forall>j. j \<noteq> index \<longrightarrow> fst (fiberMain_controls u oob index (fibers, particles)) ! j = fibers ! j"
    by (simp add: fiberMain_controls_def Let_def)
  have d: "index < length fibers \<longrightarrow>
        fst (fiberMain_controls u oob index (fibers, particles)) ! index
          = fiberUpdate_controls u oob particles (fibers ! index)"
    by (simp add: fiberMain_controls_def Let_def)
  have e: "start (fiberUpdate_controls u oob particles f) = start f
     \<and> end_index (fiberUpdate_controls u oob particles f) = end_index f"
    by (simp add: fiberUpdate_controls_def Let_def)
  have g: "springForce_controls u (endpointDistance oob particles f)
            (f\<lparr>length_rest := endpointDistance oob particles f\<rparr>) = 0
        \<and> springForce_controls u (endpointDistance oob particles f)
            (f\<lparr>length_rest := endpointDistance oob particles f, isActive := 0\<rparr>) = 0"
    by (simp add: springForce_controls_def)
  have h: "isActive f > 0.5 \<longrightarrow> fiberUpdate_controls u oob particles f
            = f\<lparr>length_rest := endpointDistance oob particles f,
                 isActive := (if endpointDistance oob particles f > maxDistance_c u then 0
                              else isActive f),
                 strength := mix (strength f) 0 (damping_c u)\<rparr>"
    by (simp add: fiberUpdate_controls_active mix_zero)
  have i: "\<not> isActive f > 0.5 \<longrightarrow> fiberUpdate_controls u oob particles f = f"
    by (simp add: fiberUpdate_controls_def)
  from a b c d e g h i show ?thesis
    by blast
qed

lemma restParticle_fields: "position (restParticle x) = Vec3 x 0 0" "velocity (restParticle x) = Vec3 0 0 0"
  by (simp_all add: restParticle_def)

lemma endpointDistance_rest:
  "endpointDistance oob [restParticle a, restParticle b] (unitFiber x) = \<bar>b - a\<bar>"
  by (simp add: endpointDistance_def readParticle_def Let_def unitFiber_fields restParticle_fields
      vsub_def vlength_axis)

theorem fiber_pass_controls_witness:
  "fiberMain_controls controlsFrame (restParticle 0) 0 ([unitFiber 1], [restParticle 0, restParticle 1.5])
     = ([\<lparr>start = 0, end_index = 1, strength = 0.025, length_rest = 1.5, isActive = 1\<rparr>],
        [restParticle 0, restParticle 1.5])"
proof -
  have l: "(0::nat) < length [unitFiber 1]"
    by simp
  have act: "isActive (unitFiber 1) > 0.5"
    by (simp add: unitFiber_fields)
  have d: "endpointDistance (restParticle 0) [restParticle 0, restParticle 1.5] (unitFiber 1) = 1.5"
    by (simp add: endpointDistance_rest)
  have m: "maxDistance_c controlsFrame = 2" "damping_c controlsFrame = 0.95"
    by (simp_all add: controlsFrame_def)
  note t = fiber_pass_controls [of controlsFrame "restParticle 0" 0 "[unitFiber 1]"
      "[restParticle 0, restParticle 1.5]" "unitFiber 1"]
  from t have p: "snd (fiberMain_controls controlsFrame (restParticle 0) 0
      ([unitFiber 1], [restParticle 0, restParticle 1.5])) = [restParticle 0, restParticle 1.5]"
    by blast
  from t l have n: "length (fst (fiberMain_controls controlsFrame (restParticle 0) 0
      ([unitFiber 1], [restParticle 0, restParticle 1.5]))) = 1"
    by simp
  from t l have q: "fst (fiberMain_controls controlsFrame (restParticle 0) 0
      ([unitFiber 1], [restParticle 0, restParticle 1.5])) ! 0
      = fiberUpdate_controls controlsFrame (restParticle 0) [restParticle 0, restParticle 1.5] (unitFiber 1)"
    by simp
  from t act have "fiberUpdate_controls controlsFrame (restParticle 0) [restParticle 0, restParticle 1.5] (unitFiber 1)
      = (unitFiber 1)\<lparr>length_rest := endpointDistance (restParticle 0) [restParticle 0, restParticle 1.5] (unitFiber 1),
           isActive := (if endpointDistance (restParticle 0) [restParticle 0, restParticle 1.5] (unitFiber 1) > maxDistance_c controlsFrame then 0 else isActive (unitFiber 1)),
           strength := mix (strength (unitFiber 1)) 0 (damping_c controlsFrame)\<rparr>"
    by blast
  then have r: "fiberUpdate_controls controlsFrame (restParticle 0) [restParticle 0, restParticle 1.5] (unitFiber 1)
      = \<lparr>start = 0, end_index = 1, strength = 0.025, length_rest = 1.5, isActive = 1\<rparr>"
    unfolding d m by (simp add: unitFiber_def mix_def)
  obtain fs where fs: "fst (fiberMain_controls controlsFrame (restParticle 0) 0
      ([unitFiber 1], [restParticle 0, restParticle 1.5])) = fs"
    by simp
  from n fs have "length fs = 1"
    by simp
  then obtain x where x: "fs = [x]"
    by (cases fs) simp_all
  from q r fs x have "fs = [\<lparr>start = 0, end_index = 1, strength = 0.025, length_rest = 1.5, isActive = 1\<rparr>]"
    by simp
  with fs p show ?thesis
    by (simp add: prod_eq_iff)
qed

section \<open>The morph tween\<close>

lemma eased_low: "p < 1 / 2 \<Longrightarrow> easedProgress p = 2 * p\<^sup>2"
  by (simp add: easedProgress_def power2_eq_square)

lemma eased_high: "1 / 2 \<le> p \<Longrightarrow> easedProgress p = 1 - (2 - 2 * p)\<^sup>2 / 2"
  by (simp add: easedProgress_def)

lemma eased_strict_mono:
  assumes "0 \<le> p" "p < q" "q \<le> 1"
  shows "easedProgress p < easedProgress q"
proof (cases "q < 1 / 2")
  case True
  with assms have "p\<^sup>2 < q\<^sup>2"
    by (intro power_strict_mono) simp_all
  with True assms show ?thesis
    by (simp add: eased_low)
next
  case qh: False
  show ?thesis
  proof (cases "p < 1 / 2")
    case True
    from assms True have "p\<^sup>2 < (1 / 2)\<^sup>2"
      by (intro power_strict_mono) simp_all
    then have lo: "2 * p\<^sup>2 < 1 / 2"
      by (simp add: power2_eq_square)
    from assms qh have "(2 - 2 * q)\<^sup>2 \<le> 1\<^sup>2"
      by (intro power_mono) simp_all
    then have hi: "1 / 2 \<le> 1 - (2 - 2 * q)\<^sup>2 / 2"
      by simp
    from lo hi True qh show ?thesis
      by (simp add: eased_low eased_high)
  next
    case False
    from assms have "(2 - 2 * q)\<^sup>2 < (2 - 2 * p)\<^sup>2"
      by (intro power_strict_mono) simp_all
    with False qh show ?thesis
      by (simp add: eased_high)
  qed
qed

lemma morphCoords_full:
  "length startPositions \<le> length dest \<Longrightarrow>
     morphCoords startPositions dest 1 = map Some (take (length startPositions) dest)"
  by (induction startPositions dest "1::real" rule: morphCoords.induct) simp_all

lemma morphCoords_length: "length (morphCoords startPositions dest e) = length startPositions"
  by (induction startPositions dest e rule: morphCoords.induct) simp_all

text \<open>
  C8. The easing curve of \<open>manualMorph\<close> takes 0 to 0, 1 to 1 and 0.5 to 0.5 and is
  (strictly) increasing on \<open>[0, 1]\<close>. With the eased value of progress 1, and so in every
  frame whose elapsed time has reached the duration, each coordinate of the position
  array becomes the coordinate of \<open>dest\<close> at the same index (\<open>dest\<close> being at least as long
  as the position array).
\<close>

theorem ease_in_out_tween:
  "easedProgress 0 = 0 \<and> easedProgress 1 = 1 \<and> easedProgress 0.5 = 0.5
   \<and> (0 \<le> p \<and> p < q \<and> q \<le> 1 \<longrightarrow> easedProgress p < easedProgress q)
   \<and> (0 \<le> p \<and> p \<le> q \<and> q \<le> 1 \<longrightarrow> easedProgress p \<le> easedProgress q)
   \<and> (length startPositions \<le> length dest \<longrightarrow>
        morphCoords startPositions dest (easedProgress 1)
          = map Some (take (length startPositions) dest))
   \<and> (length startPositions \<le> length dest \<and> 0 < duration \<and> duration \<le> elapsed \<longrightarrow>
        manualMorph_animate startPositions dest elapsed duration
          = map Some (take (length startPositions) dest))"
proof -
  have v: "easedProgress 0 = 0" "easedProgress 1 = 1" "easedProgress 0.5 = 0.5"
    by (simp_all add: easedProgress_def power2_eq_square)
  have s: "easedProgress p < easedProgress q" if "0 \<le> p \<and> p < q \<and> q \<le> 1"
    using that by (simp add: eased_strict_mono)
  have w: "easedProgress p \<le> easedProgress q" if "0 \<le> p \<and> p \<le> q \<and> q \<le> 1"
  proof (cases "p = q")
    case True
    then show ?thesis by simp
  next
    case False
    with that have "easedProgress p < easedProgress q"
      by (intro eased_strict_mono) simp_all
    then show ?thesis by simp
  qed
  have m: "morphCoords startPositions dest (easedProgress 1)
          = map Some (take (length startPositions) dest)"
    if "length startPositions \<le> length dest"
    using that by (simp add: v morphCoords_full)
  have a: "manualMorph_animate startPositions dest elapsed duration
          = map Some (take (length startPositions) dest)"
    if h: "length startPositions \<le> length dest \<and> 0 < duration \<and> duration \<le> elapsed"
  proof -
    from h have "1 \<le> elapsed / duration"
      by simp
    then have "progress elapsed duration = 1"
      by (simp add: progress_def)
    with h show ?thesis
      by (simp add: manualMorph_animate_def v morphCoords_full)
  qed
  from v s w m a show ?thesis
    by blast
qed

theorem ease_in_out_tween_witness:
  "easedProgress 0.25 < easedProgress 0.75
   \<and> morphCoords [1, 2, 3] [4, 5, 6] (easedProgress 1) = [Some 4, Some 5, Some 6]
   \<and> manualMorph_animate [1, 2, 3] [4, 5, 6] 2 2 = [Some 4, Some 5, Some 6]"
proof -
  note t = ease_in_out_tween [where p = "0.25" and q = "0.75" and startPositions = "[1, 2, 3]"
      and dest = "[4, 5, 6]" and duration = 2 and elapsed = 2]
  have a: "easedProgress 0.25 < easedProgress 0.75"
    using t by simp
  have b: "morphCoords [1, 2, 3] [4, 5, 6] (easedProgress 1) = [Some 4, Some 5, Some 6]"
    using t by simp
  have c: "manualMorph_animate [1, 2, 3] [4, 5, 6] 2 2 = [Some 4, Some 5, Some 6]"
    using t by simp
  from a b c show ?thesis
    by blast
qed

section \<open>Defaults of the uniform upload\<close>

lemma js_or_zero: "js_or (Some 0) d = d"
  by (simp add: js_or_def)

lemma js_or_nonzero: "d \<noteq> 0 \<Longrightarrow> js_or a d \<noteq> 0"
  by (simp add: js_or_def split: option.splits)

text \<open>
  C10. \<open>updateUniforms\<close> writes 0.5, 1, 0.2, 3.0, 2.0 and 1.0 for a turbulence,
  attraction, respawn rate, hover radius, hover strength or mouse influence of 0; a
  gravity of 0 is written as 0. Whatever the parameters are, none of the six uniforms is
  ever 0.
\<close>

theorem falsy_defaults:
  "(turbulence_param params = Some 0 \<longrightarrow>
      turbulence (fst (updateUniforms n t dt params)) = 0.5)
   \<and> (attraction_param params = Some 0 \<longrightarrow>
      attraction (fst (updateUniforms n t dt params)) = 1)
   \<and> (respawnRate_param params = Some 0 \<longrightarrow>
      respawnRate (fst (updateUniforms n t dt params)) = 0.2)
   \<and> (hoverRadius_param params = Some 0 \<longrightarrow>
      hoverRadius (fst (updateUniforms n t dt params)) = 3.0)
   \<and> (hoverStrength_param params = Some 0 \<longrightarrow>
      hoverStrength (fst (updateUniforms n t dt params)) = 2.0)
   \<and> (mouseInfluence_param params = Some 0 \<longrightarrow>
      mouseInfluence (fst (updateUniforms n t dt params)) = 1.0)
   \<and> (gravity_param params = Some 0 \<longrightarrow>
      gravity (fst (updateUniforms n t dt params)) = 0)
   \<and> turbulence (fst (updateUniforms n t dt params)) \<noteq> 0
   \<and> attraction (fst (updateUniforms n t dt params)) \<noteq> 0
   \<and> respawnRate (fst (updateUniforms n t dt params)) \<noteq> 0
   \<and> hoverRadius (fst (updateUniforms n t dt params)) \<noteq> 0
   \<and> hoverStrength (fst (updateUniforms n t dt params)) \<noteq> 0
   \<and> mouseInfluence (fst (updateUniforms n t dt params)) \<noteq> 0"
  by (simp add: updateUniforms_def js_or_zero js_or_nonzero)

theorem falsy_defaults_witness:
  "turbulence (fst (updateUniforms 2500 0 (1 / 60) zeroParams)) = 0.5
   \<and> attraction (fst (updateUniforms 2500 0 (1 / 60) zeroParams)) = 1
   \<and> respawnRate (fst (updateUniforms 2500 0 (1 / 60) zeroParams)) = 0.2
   \<and> hoverRadius (fst (updateUniforms 2500 0 (1 / 60) zeroParams)) = 3.0
   \<and> hoverStrength (fst (updateUniforms 2500 0 (1 / 60) zeroParams)) = 2.0
   \<and> mouseInfluence (fst (updateUniforms 2500 0 (1 / 60) zeroParams)) = 1.0
   \<and> gravity (fst (updateUniforms 2500 0 (1 / 60) zeroParams)) = 0"
proof -
  have z: "turbulence_param zeroParams = Some 0" "attraction_param zeroParams = Some 0"
    "respawnRate_param zeroParams = Some 0" "hoverRadius_param zeroParams = Some 0"
    "hoverStrength_param zeroParams = Some 0" "mouseInfluence_param zeroParams = Some 0"
    "gravity_param zeroParams = Some 0"
    by (simp_all add: zeroParams_def)
  from z falsy_defaults [of zeroParams 2500 0 "1 / 60"] show ?thesis
    by blast
qed

section \<open>Readbacks in flight\<close>

lemma animate_inFlight_length:
  "length (inFlight (animate m s)) \<le> length (inFlight s) + (if m > 0 then 1 else 0)"
  by (simp add: animate_def syncWebGPUParticles_def Let_def)

lemma resolved_inFlight_length: "length (inFlight (resolved k s)) \<le> length (inFlight s)"
  by (simp add: resolved_def)

lemma step_inFlight_length:
  "length (inFlight (step e s)) \<le> length (inFlight s) + (if issues e then 1 else 0)"
proof (cases e)
  case (Frame m)
  then show ?thesis
    using animate_inFlight_length [of m s] by simp
next
  case (Resolved k)
  then show ?thesis
    using resolved_inFlight_length [of k s] by simp
qed

lemma run_inFlight_length:
  "length (inFlight (run es s)) \<le> length (inFlight s) + length (filter issues es)"
proof (induction es arbitrary: s)
  case Nil
  then show ?case by simp
next
  case (Cons e es)
  have "length (inFlight (run es (step e s))) \<le> length (inFlight (step e s)) + length (filter issues es)"
    by (rule Cons.IH)
  with step_inFlight_length [of e s] show ?case
    by (simp split: if_splits)
qed

text \<open>
  C3 as stated fails: there is no guard on a pending readback. Two frames in a row with
  \<open>morphProgress = 0.5\<close>, with no map resolved in between, leave two readbacks in flight;
  the second request is not skipped.
\<close>

theorem single_readback_counterexample:
  "inFlight (animate 0.5 freshHost) = [1]
   \<and> inFlight (run [Frame 0.5, Frame 0.5] freshHost) = [1, 2]"
  by (simp add: animate_def syncWebGPUParticles_def Let_def freshHost_def)

text \<open>
  C3, amended. A frame with WebGPU in use and \<open>morphProgress > 0\<close> issues a new readback of
  the buffer it has just computed, whatever is still pending; the frame computes and
  returns without touching the mirror, which changes only when a map resolves. The
  readbacks in flight after any sequence of frames and resolutions are at most those
  in flight before plus the number of frames with \<open>morphProgress > 0\<close>.
\<close>

theorem readback_every_morph_frame:
  "(useWebGPU s \<and> morphProgressNow > 0 \<longrightarrow>
      inFlight (animate morphProgressNow s) = inFlight s @ [computed s + 1])
   \<and> (useWebGPU s \<longrightarrow> computed (animate morphProgressNow s) = computed s + 1)
   \<and> mirror (animate morphProgressNow s) = mirror s
   \<and> (k < length (inFlight s) \<longrightarrow>
        mirror (resolved k s) = Some (inFlight s ! k)
        \<and> length (inFlight (resolved k s)) = length (inFlight s) - 1
        \<and> computed (resolved k s) = computed s)
   \<and> length (inFlight (run es s)) \<le> length (inFlight s) + length (filter issues es)"
proof -
  have a: "useWebGPU s \<and> morphProgressNow > 0 \<longrightarrow>
      inFlight (animate morphProgressNow s) = inFlight s @ [computed s + 1]"
    by (simp add: animate_def syncWebGPUParticles_def Let_def)
  have b: "useWebGPU s \<longrightarrow> computed (animate morphProgressNow s) = computed s + 1"
    by (simp add: animate_def syncWebGPUParticles_def Let_def)
  have c: "mirror (animate morphProgressNow s) = mirror s"
    by (simp add: animate_def syncWebGPUParticles_def Let_def)
  have d: "k < length (inFlight s) \<longrightarrow>
        mirror (resolved k s) = Some (inFlight s ! k)
        \<and> length (inFlight (resolved k s)) = length (inFlight s) - 1
        \<and> computed (resolved k s) = computed s"
    by (auto simp add: resolved_def)
  from a b c d run_inFlight_length [of es s] show ?thesis
    by blast
qed

theorem readback_every_morph_frame_witness:
  "inFlight (animate 0.5 (animate 0.5 freshHost)) = [1, 2]
   \<and> computed (animate 0.5 (animate 0.5 freshHost)) = 2
   \<and> mirror (resolved 0 (animate 0.5 (animate 0.5 freshHost))) = Some 1"
proof -
  have u: "useWebGPU freshHost" "inFlight freshHost = []" "computed freshHost = 0"
    by (simp_all add: freshHost_def)
  have u1: "useWebGPU (animate 0.5 freshHost)"
    by (simp add: animate_def syncWebGPUParticles_def Let_def freshHost_def)
  have p: "(0.5::real) > 0"
    by simp
  from readback_every_morph_frame [where s = freshHost and morphProgressNow = "0.5"] u p
  have one: "inFlight (animate 0.5 freshHost) = [1]" "computed (animate 0.5 freshHost) = 1"
    by simp_all
  from readback_every_morph_frame [where s = "animate 0.5 freshHost" and morphProgressNow = "0.5"] u1 p one
  have two: "inFlight (animate 0.5 (animate 0.5 freshHost)) = [1, 2]"
    "computed (animate 0.5 (animate 0.5 freshHost)) = 2"
    by simp_all
  from readback_every_morph_frame [where s = "animate 0.5 (animate 0.5 freshHost)" and k = 0] two
  have three: "mirror (resolved 0 (animate 0.5 (animate 0.5 freshHost))) = Some 1"
    by simp
  from two three show ?thesis
    by blast
qed

end
